theory Spec2Isabelle
  imports Complex_Main
begin

section \<open>JavaScript values\<close>

text \<open>
  The server (\<^verbatim>\<open>src/server/server.js\<close>) is dynamically typed: the cells of a
  spreadsheet row arrive as numbers, strings, booleans, or are missing
  (\<^verbatim>\<open>undefined\<close>). Numbers are modelled as exact rationals extended with
  \<^verbatim>\<open>NaN\<close>; the rounding of IEEE doubles, the infinities and the signed zero are
  abstracted away. The statements below use the arithmetic as the expressions of the
  code, and none rests on an identity that rounding breaks, such as
  \<open>a + (b - a) = b\<close>.
\<close>

datatype num = NaN | Fin rat

datatype jsval = JUndefined | JBool bool | JNum num | JStr string

text \<open>
  The built-in conversions of the language between strings and numbers are not part of
  the repository. They are parameters of the model: every function that needs one takes
  a record of them, and the theorems hold for every such record.
\<close>

record builtins =
  parseFloat :: "string \<Rightarrow> num"
  StringToNumber :: "string \<Rightarrow> num"
  NumberToString :: "num \<Rightarrow> string"

fun ToNumber :: "builtins \<Rightarrow> jsval \<Rightarrow> num" where
  "ToNumber B JUndefined = NaN"
| "ToNumber B (JBool b) = (if b then Fin 1 else Fin 0)"
| "ToNumber B (JNum n) = n"
| "ToNumber B (JStr s) = StringToNumber B s"

fun ToString :: "builtins \<Rightarrow> jsval \<Rightarrow> string" where
  "ToString B JUndefined = ''undefined''"
| "ToString B (JBool b) = (if b then ''true'' else ''false'')"
| "ToString B (JNum n) = NumberToString B n"
| "ToString B (JStr s) = s"

fun ToBoolean :: "jsval \<Rightarrow> bool" where
  "ToBoolean JUndefined = False"
| "ToBoolean (JBool b) = b"
| "ToBoolean (JNum NaN) = False"
| "ToBoolean (JNum (Fin q)) = (q \<noteq> 0)"
| "ToBoolean (JStr s) = (s \<noteq> [])"

subsection \<open>Arithmetic: \<^verbatim>\<open>NaN\<close> is absorbing\<close>

fun num_add :: "num \<Rightarrow> num \<Rightarrow> num" where
  "num_add (Fin a) (Fin b) = Fin (a + b)"
| "num_add _ _ = NaN"

fun num_sub :: "num \<Rightarrow> num \<Rightarrow> num" where
  "num_sub (Fin a) (Fin b) = Fin (a - b)"
| "num_sub _ _ = NaN"

fun num_mul :: "num \<Rightarrow> num \<Rightarrow> num" where
  "num_mul (Fin a) (Fin b) = Fin (a * b)"
| "num_mul _ _ = NaN"

text \<open>
  Every division of the source has a nonzero constant as divisor, or is guarded by
  \<^verbatim>\<open>current_load_kW > 0\<close>; the quotient by zero (an infinity or \<^verbatim>\<open>NaN\<close> in the
  language) is never computed and is \<open>NaN\<close> here.
\<close>

fun num_div :: "num \<Rightarrow> num \<Rightarrow> num" where
  "num_div (Fin a) (Fin b) = (if b = 0 then NaN else Fin (a / b))"
| "num_div _ _ = NaN"

subsection \<open>Relational comparison\<close>

text \<open>Two strings are compared by their code units, in lexicographic order.\<close>

fun str_lt :: "string \<Rightarrow> string \<Rightarrow> bool" where
  "str_lt [] [] = False"
| "str_lt [] (y # ys) = True"
| "str_lt (x # xs) [] = False"
| "str_lt (x # xs) (y # ys) =
     (if (of_char x :: nat) < of_char y then True
      else if (of_char y :: nat) < of_char x then False
      else str_lt xs ys)"

text \<open>
  \<open>js_lt B x y\<close> is the language's comparison \<^verbatim>\<open>x < y\<close> before it is turned into a
  boolean: \<open>None\<close> is the outcome \<^verbatim>\<open>undefined\<close> of a comparison with \<^verbatim>\<open>NaN\<close>.
  All four operators answer \<^verbatim>\<open>false\<close> on it.
\<close>

fun js_lt :: "builtins \<Rightarrow> jsval \<Rightarrow> jsval \<Rightarrow> bool option" where
  "js_lt B (JStr a) (JStr b) = Some (str_lt a b)"
| "js_lt B x y =
     (case (ToNumber B x, ToNumber B y) of
        (Fin p, Fin q) \<Rightarrow> Some (p < q)
      | _ \<Rightarrow> None)"

definition js_less :: "builtins \<Rightarrow> jsval \<Rightarrow> jsval \<Rightarrow> bool" where
  "js_less B x y = (js_lt B x y = Some True)"

definition js_greater :: "builtins \<Rightarrow> jsval \<Rightarrow> jsval \<Rightarrow> bool" where
  "js_greater B x y = (js_lt B y x = Some True)"

definition js_greater_eq :: "builtins \<Rightarrow> jsval \<Rightarrow> jsval \<Rightarrow> bool" where
  "js_greater_eq B x y = (js_lt B x y = Some False)"


text \<open>\<^verbatim>\<open>a <= b\<close> on two numbers: false when one of them is \<^verbatim>\<open>NaN\<close>.\<close>

fun num_le :: "num \<Rightarrow> num \<Rightarrow> bool" where
  "num_le (Fin a) (Fin b) = (a \<le> b)"
| "num_le _ _ = False"

section \<open>Rows\<close>

text \<open>
  A row of the sheet as \<^verbatim>\<open>processRowData\<close> reads it: the nine columns it
  destructures. A missing cell is \<open>JUndefined\<close>.
\<close>

record raw_row =
  timestamp :: jsval
  is_daytime :: jsval
  solar_input_watts :: jsval
  grid_status :: jsval
  household_power_demand_watts :: jsval
  heavy_appliance_active :: jsval
  ambient_temperature_celsius :: jsval
  weather_condition :: jsval
  battery_percent :: jsval

datatype power_source = Solar | Grid | Solar_Grid | Solar_Battery | Battery

datatype battery_action = Charging | Discharging | Idle

text \<open>
  The object \<^verbatim>\<open>processedData\<close>: the spread of the row, then the derived fields.
  \<open>power_source\<close> is \<open>None\<close> when the variable is left \<^verbatim>\<open>undefined\<close>.
\<close>

record processed_row = raw_row +
  power_source :: "power_source option"
  battery_action :: battery_action
  battery_efficiency :: num
  solar_contribution :: num
  grid_contribution :: num
  battery_contribution :: num
  total_consumption_kwh :: num
  estimated_battery_backup_time :: num
  alerts :: string
  discharge_cycles :: nat

section \<open>Server state\<close>

text \<open>
  A file of the upload directory is a workbook whose first sheet is a list of rows, or
  something \<^verbatim>\<open>XLSX.readFile\<close> fails on. A row of a sheet is as uploaded, or carries
  the columns \<^verbatim>\<open>appendProcessedData\<close> wrote. The spreadsheet library is taken to
  store and return rows unchanged.
\<close>

datatype sheet_row = Uploaded raw_row | Written processed_row

datatype stored_file = Workbook "sheet_row list" | Unreadable

text \<open>
  The module-level variables (lines 17 to 19), and the file system the endpoints read
  and write. \<open>lastBatteryAction\<close> is \<open>None\<close> for its initial \<^verbatim>\<open>null\<close>.
\<close>

record server =
  currentRowIndex :: nat
  batteryDischargeCycles :: nat
  lastBatteryAction :: "battery_action option"
  files :: "string \<Rightarrow> stored_file option"

definition BATTERY_CAPACITY_KWH :: num where
  "BATTERY_CAPACITY_KWH = Fin 10"

definition loadExcelData :: "server \<Rightarrow> string \<Rightarrow> sheet_row list" where
  "loadExcelData st filePath =
     (case files st filePath of
        Some (Workbook data) \<Rightarrow> data
      | _ \<Rightarrow> [])"

section \<open>processRowData\<close>

subsection \<open>Step 1: power source and its alerts (lines 64 to 113)\<close>

definition power_source_rule :: "builtins \<Rightarrow> raw_row \<Rightarrow> power_source option \<times> string list" where
  "power_source_rule B r =
     (if ToBoolean (is_daytime r) then
        (if grid_status r = JStr ''normal'' then
           (if js_greater_eq B (solar_input_watts r) (household_power_demand_watts r)
            then (Some Solar, [])
            else (Some Solar_Grid, []))
         else if grid_status r = JStr ''power off'' \<or> grid_status r = JStr ''voltage fluctuation'' then
           (let (ps, a) =
              (if js_greater_eq B (solar_input_watts r) (household_power_demand_watts r)
               then (Some Solar, [''Grid power unavailable. Using solar only.''])
               else (Some Solar_Battery, [''Powering from battery due to grid issue.'']))
            in (ps, a @ (if ToBoolean (heavy_appliance_active r)
                         then [''Warning: Heavy appliances running on solar backup.'']
                         else [])))
         else (None, []))
      else
        (if grid_status r = JStr ''normal'' then (Some Grid, [])
         else if grid_status r = JStr ''power off'' \<or> grid_status r = JStr ''voltage fluctuation'' then
           (Some Battery,
            ''Switched to battery.'' #
              (if ToBoolean (heavy_appliance_active r)
               then [''Warning: Heavy appliances on battery backup. Consider turning off.'']
               else []))
         else if grid_status r = JStr ''power off'' then
           (Some Battery,
            ''Grid power unavailable. Using battery backup.'' #
              (if ToBoolean (heavy_appliance_active r)
               then [''Warning: High load on battery backup. Turn off heavy devices.'']
               else []))
         else (None, [])))"

subsection \<open>The parsing block (lines 117 to 130)\<close>

text \<open>
  \<^verbatim>\<open>battery_percent\<close> is bound by a \<^verbatim>\<open>const\<close> destructuring (line 39), so the
  assignment of line 123 raises a \<^verbatim>\<open>TypeError\<close> whenever it is executed.
\<close>

datatype js_error = TypeError

definition assign_const :: "jsval \<Rightarrow> jsval \<Rightarrow> js_error + jsval" where
  "assign_const binding v = Inl TypeError"

text \<open>
  The block returns the final values of \<^verbatim>\<open>parsedBatteryPercent\<close> (\<open>None\<close> for
  \<^verbatim>\<open>null\<close>) and of \<^verbatim>\<open>battery_percent\<close>. The error of line 123 is raised inside the
  \<^verbatim>\<open>try\<close> and caught by line 125, which only logs it.
\<close>

definition parse_battery_percent :: "builtins \<Rightarrow> jsval \<Rightarrow> num option \<times> jsval" where
  "parse_battery_percent B bp =
     (case bp of
        JStr s \<Rightarrow>
          (let parsed = parseFloat B s in
           if js_less B (JNum parsed) (JNum (Fin 1)) then
             (let parsed' = num_mul parsed (Fin 100) in
              case assign_const bp (JNum parsed') of
                Inl e \<Rightarrow> (Some parsed', bp)
              | Inr bp' \<Rightarrow> (Some parsed', bp'))
           else (Some parsed, bp))
      | JNum n \<Rightarrow> (Some n, bp)
      | _ \<Rightarrow> (None, bp))"

subsection \<open>The low-battery alert (lines 132 to 135)\<close>

definition low_battery_alert :: "builtins \<Rightarrow> jsval \<Rightarrow> string list" where
  "low_battery_alert B bp =
     (if js_less B bp (JNum (Fin 28))
      then [''Battery Low: '' @ ToString B bp @ ''%'']
      else [])"

text \<open>The array \<^verbatim>\<open>alerts\<close> after line 135.\<close>

definition row_alerts :: "builtins \<Rightarrow> raw_row \<Rightarrow> string list" where
  "row_alerts B r =
     snd (power_source_rule B r) @
     low_battery_alert B (snd (parse_battery_percent B (battery_percent r)))"

fun join :: "string \<Rightarrow> string list \<Rightarrow> string" where
  "join sep [] = []"
| "join sep [x] = x"
| "join sep (x # y # ys) = x @ sep @ join sep (y # ys)"


subsection \<open>Step 2: battery action (lines 137 to 177)\<close>

text \<open>The conditions of the four tested branches, in the order of the source.\<close>

definition rule_a :: "power_source option \<Rightarrow> bool" where
  "rule_a ps = (ps = Some Battery \<or> ps = Some Solar_Battery)"

definition rule_b :: "builtins \<Rightarrow> raw_row \<Rightarrow> jsval \<Rightarrow> bool" where
  "rule_b B r bp =
     (ToBoolean (is_daytime r) \<and>
      js_greater B (solar_input_watts r) (household_power_demand_watts r) \<and>
      js_less B bp (JNum (Fin 100)))"

definition rule_c :: "builtins \<Rightarrow> raw_row \<Rightarrow> jsval \<Rightarrow> bool" where
  "rule_c B r bp = (grid_status r = JStr ''normal'' \<and> js_less B bp (JNum (Fin 100)))"

definition rule_d :: "builtins \<Rightarrow> raw_row \<Rightarrow> jsval \<Rightarrow> bool" where
  "rule_d B r bp =
     ((grid_status r = JStr ''power off'' \<or> grid_status r = JStr ''voltage fluctuation'') \<and>
      js_greater B bp (JNum (Fin 28)))"

text \<open>
  The chain of lines 141 to 173. Only the first branch touches
  \<^verbatim>\<open>batteryDischargeCycles\<close>.
\<close>

definition battery_action_rule ::
  "builtins \<Rightarrow> raw_row \<Rightarrow> power_source option \<Rightarrow> jsval \<Rightarrow> server \<Rightarrow> battery_action \<times> server" where
  "battery_action_rule B r ps bp st =
     (if rule_a ps then
        (Discharging,
         if lastBatteryAction st \<noteq> Some Discharging
         then st\<lparr>batteryDischargeCycles := batteryDischargeCycles st + 1\<rparr>
         else st)
      else if rule_b B r bp then (Charging, st)
      else if rule_c B r bp then (Charging, st)
      else if rule_d B r bp then (Discharging, st)
      else (Idle, st))"

subsection \<open>Steps 3 to 5: efficiency, contributions, backup time (lines 179 to 218)\<close>

definition hourFraction :: num where
  "hourFraction = num_div (Fin 20) (Fin 3600)"

definition contributions :: "power_source option \<Rightarrow> num \<Rightarrow> num \<Rightarrow> num \<times> num \<times> num" where
  "contributions ps totalDemandKwh solar =
     (case ps of
        Some Solar \<Rightarrow> (totalDemandKwh, Fin 0, Fin 0)
      | Some Grid \<Rightarrow> (Fin 0, totalDemandKwh, Fin 0)
      | Some Solar_Grid \<Rightarrow>
          (let solar_contribution = num_div (num_mul solar hourFraction) (Fin 1000)
           in (solar_contribution, num_sub totalDemandKwh solar_contribution, Fin 0))
      | Some Solar_Battery \<Rightarrow>
          (let solar_contribution = num_div (num_mul solar hourFraction) (Fin 1000)
           in (solar_contribution, Fin 0, num_sub totalDemandKwh solar_contribution))
      | Some Battery \<Rightarrow> (Fin 0, Fin 0, totalDemandKwh)
      | None \<Rightarrow> (Fin 0, Fin 0, Fin 0))"

definition backup_time :: "builtins \<Rightarrow> jsval \<Rightarrow> num \<Rightarrow> num" where
  "backup_time B bp current_load_kW =
     (if js_greater B (JNum current_load_kW) (JNum (Fin 0))
      then num_div (num_mul (num_div (ToNumber B bp) (Fin 100)) BATTERY_CAPACITY_KWH)
             current_load_kW
      else Fin 0)"

subsection \<open>The whole function (lines 37 to 236)\<close>

definition processRowData :: "builtins \<Rightarrow> raw_row \<Rightarrow> server \<Rightarrow> processed_row \<times> server" where
  "processRowData B rowData st =
     (let (ps, _) = power_source_rule B rowData;
          (parsedBatteryPercent, bp) = parse_battery_percent B (battery_percent rowData);
          (action, st1) = battery_action_rule B rowData ps bp st;
          st2 = st1\<lparr>lastBatteryAction := Some action\<rparr>;
          totalDemandKwh =
            num_div (num_mul (ToNumber B (household_power_demand_watts rowData)) hourFraction)
              (Fin 1000);
          (solar_c, grid_c, battery_c) =
            contributions ps totalDemandKwh (ToNumber B (solar_input_watts rowData));
          current_load_kW = num_div (ToNumber B (household_power_demand_watts rowData)) (Fin 1000)
      in (\<lparr>timestamp = timestamp rowData,
           is_daytime = is_daytime rowData,
           solar_input_watts = solar_input_watts rowData,
           grid_status = grid_status rowData,
           household_power_demand_watts = household_power_demand_watts rowData,
           heavy_appliance_active = heavy_appliance_active rowData,
           ambient_temperature_celsius = ambient_temperature_celsius rowData,
           weather_condition = weather_condition rowData,
           battery_percent = battery_percent rowData,
           power_source = ps,
           battery_action = action,
           battery_efficiency =
             num_sub (Fin 100)
               (num_mul (Fin (of_nat (batteryDischargeCycles st2))) (Fin (2 / 10))),
           solar_contribution = solar_c,
           grid_contribution = grid_c,
           battery_contribution = battery_c,
           total_consumption_kwh = totalDemandKwh,
           estimated_battery_backup_time = backup_time B bp current_load_kW,
           alerts = join '', '' (row_alerts B rowData),
           discharge_cycles = batteryDischargeCycles st2\<rparr>,
          st2))"

section \<open>Writing a processed row back (lines 239 to 267)\<close>

fun raw_of :: "sheet_row \<Rightarrow> raw_row" where
  "raw_of (Uploaded r) = r"
| "raw_of (Written p) = raw_row.truncate p"

text \<open>
  \<^verbatim>\<open>{ ...row, ...processedData }\<close>: a column the processed row has wins; a column it
  lacks (a missing cell) keeps the value of \<open>row\<close>. The ten derived columns are always
  in \<^verbatim>\<open>processedData\<close>.
\<close>

definition over :: "jsval \<Rightarrow> jsval \<Rightarrow> jsval" where
  "over old new = (if new = JUndefined then old else new)"

definition spread_over :: "sheet_row \<Rightarrow> processed_row \<Rightarrow> sheet_row" where
  "spread_over row p =
     (let old = raw_of row
      in Written (p\<lparr>timestamp := over (timestamp old) (timestamp p),
                     is_daytime := over (is_daytime old) (is_daytime p),
                     solar_input_watts := over (solar_input_watts old) (solar_input_watts p),
                     grid_status := over (grid_status old) (grid_status p),
                     household_power_demand_watts :=
                       over (household_power_demand_watts old) (household_power_demand_watts p),
                     heavy_appliance_active :=
                       over (heavy_appliance_active old) (heavy_appliance_active p),
                     ambient_temperature_celsius :=
                       over (ambient_temperature_celsius old) (ambient_temperature_celsius p),
                     weather_condition := over (weather_condition old) (weather_condition p),
                     battery_percent := over (battery_percent old) (battery_percent p)\<rparr>))"

text \<open>
  The row that is rewritten is the one at \<^verbatim>\<open>currentRowIndex - 1\<close>, with the index the
  variable has when the function is called; no row has index \<open>-1\<close>. A file that cannot
  be read makes the function log the error and return.
\<close>

definition appendProcessedData :: "string \<Rightarrow> processed_row \<Rightarrow> server \<Rightarrow> server" where
  "appendProcessedData filePath processedData st =
     (case files st filePath of
        Some (Workbook data) \<Rightarrow>
          (let updatedData =
                 map (\<lambda>(index, row).
                        if int index = int (currentRowIndex st) - 1
                        then spread_over row processedData
                        else row)
                   (enumerate 0 data)
           in st\<lparr>files := (files st)(filePath \<mapsto> Workbook updatedData)\<rparr>)
      | _ \<Rightarrow> st)"

section \<open>Endpoints\<close>

datatype response =
    Status nat string
  | Upload_json string string
  | Next_done
  | Next_data processed_row
  | Summary_json nat nat nat

text \<open>
  An upload request: the \<^verbatim>\<open>file\<close> part when there is one, with its name, its
  content, and the error \<^verbatim>\<open>file.mv\<close> hands to its callback, if any. The upload
  directory is written \<open>uploads/\<close>.
\<close>

record upload_file =
  file_name :: string
  file_content :: stored_file
  mv_error :: "string option"

definition post_uploads :: "upload_file option \<Rightarrow> server \<Rightarrow> response \<times> server" where
  "post_uploads req st =
     (case req of
        None \<Rightarrow> (Status 400 ''No file uploaded'', st)
      | Some f \<Rightarrow>
          (let uploadPath = ''uploads/'' @ file_name f
           in case mv_error f of
                Some err \<Rightarrow> (Status 500 err, st)
              | None \<Rightarrow>
                  (Upload_json ''File uploaded successfully'' uploadPath,
                   st\<lparr>files := (files st)(uploadPath \<mapsto> file_content f),
                      currentRowIndex := 0,
                      batteryDischargeCycles := 0\<rparr>)))"

text \<open>\<^verbatim>\<open>!filePath || !fs.existsSync(filePath)\<close>: no parameter, an empty one, or no such file.\<close>

definition file_not_found :: "string option \<Rightarrow> server \<Rightarrow> bool" where
  "file_not_found filePath st =
     (case filePath of
        None \<Rightarrow> True
      | Some p \<Rightarrow> p = [] \<or> files st p = None)"

definition get_data_next :: "builtins \<Rightarrow> string option \<Rightarrow> server \<Rightarrow> response \<times> server" where
  "get_data_next B filePath st =
     (if file_not_found filePath st then (Status 404 ''File not found'', st)
      else
        (let p = the filePath;
             data = loadExcelData st p
         in if currentRowIndex st \<ge> length data then (Next_done, st)
            else
              (let rawRow = data ! currentRowIndex st;
                   (processedRow, st1) = processRowData B (raw_of rawRow) st;
                   st2 = appendProcessedData p processedRow st1;
                   st3 = st2\<lparr>currentRowIndex := currentRowIndex st2 + 1\<rparr>
               in (Next_data processedRow, st3))))"

definition get_data_summary :: "string option \<Rightarrow> server \<Rightarrow> response" where
  "get_data_summary filePath st =
     (if file_not_found filePath st then Status 404 ''File not found''
      else
        (let data = loadExcelData st (the filePath)
         in Summary_json (length data) (min (currentRowIndex st) (length data))
              (batteryDischargeCycles st)))"

text \<open>
  Both handlers answer through \<^verbatim>\<open>res.json\<close>, which writes a number that is
  \<^verbatim>\<open>NaN\<close> as \<^verbatim>\<open>null\<close>. \<open>json_number\<close> is a number as the answer carries it,
  \<open>None\<close> for \<^verbatim>\<open>null\<close>.
\<close>

definition json_number :: "num \<Rightarrow> rat option" where
  "json_number n = (case n of NaN \<Rightarrow> None | Fin q \<Rightarrow> Some q)"

section \<open>Sessions\<close>

text \<open>
  The state of the process when it starts, with the given files, and \<open>K\<close> successive
  requests for the next row of the same file.
\<close>

definition initial_server :: "(string \<Rightarrow> stored_file option) \<Rightarrow> server" where
  "initial_server fs =
     \<lparr>currentRowIndex = 0, batteryDischargeCycles = 0, lastBatteryAction = None, files = fs\<rparr>"

fun advance_n :: "builtins \<Rightarrow> nat \<Rightarrow> string \<Rightarrow> server \<Rightarrow> response list \<times> server" where
  "advance_n B 0 p st = ([], st)"
| "advance_n B (Suc k) p st =
     (let (res, st1) = get_data_next B (Some p) st;
          (rs, st2) = advance_n B k p st1
      in (res # rs, st2))"

fun rows_of :: "response list \<Rightarrow> processed_row list" where
  "rows_of [] = []"
| "rows_of (Next_data p # rs) = p # rows_of rs"
| "rows_of (_ # rs) = rows_of rs"


section \<open>A decimal instance of the built-ins\<close>

text \<open>
  For evaluation at concrete rows: the conversions of the language on plain decimal
  text (an optional sign, digits, an optional fraction), without exponents, hexadecimal
  literals or \<^verbatim>\<open>Infinity\<close>. No theorem below depends on it except through the
  concrete rows it is applied to.
\<close>

definition is_digit :: "char \<Rightarrow> bool" where
  "is_digit c = (48 \<le> (of_char c :: nat) \<and> (of_char c :: nat) \<le> 57)"

definition is_space :: "char \<Rightarrow> bool" where
  "is_space c = ((of_char c :: nat) \<in> {9, 10, 11, 12, 13, 32})"

fun digits_value :: "nat \<Rightarrow> string \<Rightarrow> nat" where
  "digits_value acc [] = acc"
| "digits_value acc (c # cs) = digits_value (10 * acc + (of_char c - 48)) cs"

definition decimal_prefix :: "string \<Rightarrow> (rat \<times> string) option" where
  "decimal_prefix s =
     (let (neg, s1) =
            (case s of
               [] \<Rightarrow> (False, s)
             | c # cs \<Rightarrow>
                 if c = CHR ''-'' then (True, cs)
                 else if c = CHR ''+'' then (False, cs)
                 else (False, s));
          ip = takeWhile is_digit s1;
          s2 = dropWhile is_digit s1;
          (fp, s3) =
            (case s2 of
               [] \<Rightarrow> ([], s2)
             | c # cs \<Rightarrow>
                 if c = CHR ''.'' then (takeWhile is_digit cs, dropWhile is_digit cs)
                 else ([], s2))
      in if ip = [] \<and> fp = [] then None
         else
           (let q = of_nat (digits_value 0 ip) + of_nat (digits_value 0 fp) / 10 ^ length fp
            in Some (if neg then - q else q, s3)))"

definition decimal_parseFloat :: "string \<Rightarrow> num" where
  "decimal_parseFloat s =
     (case decimal_prefix (dropWhile is_space s) of
        None \<Rightarrow> NaN
      | Some (q, _) \<Rightarrow> Fin q)"

definition decimal_StringToNumber :: "string \<Rightarrow> num" where
  "decimal_StringToNumber s =
     (let t = rev (dropWhile is_space (rev (dropWhile is_space s)))
      in if t = [] then Fin 0
         else
           (case decimal_prefix t of
              Some (q, []) \<Rightarrow> Fin q
            | _ \<Rightarrow> NaN))"

definition digit_char :: "nat \<Rightarrow> char" where
  "digit_char d = char_of (48 + d)"

fun nat_digits :: "nat \<Rightarrow> nat \<Rightarrow> string" where
  "nat_digits 0 n = []"
| "nat_digits (Suc fuel) n =
     (if n < 10 then [digit_char n]
      else nat_digits fuel (n div 10) @ [digit_char (n mod 10)])"

fun frac_digits :: "nat \<Rightarrow> rat \<Rightarrow> string" where
  "frac_digits 0 r = []"
| "frac_digits (Suc fuel) r =
     (if r = 0 then []
      else
        (let d = nat \<lfloor>r * 10\<rfloor>
         in digit_char d # frac_digits fuel (r * 10 - of_nat d)))"

definition decimal_NumberToString :: "num \<Rightarrow> string" where
  "decimal_NumberToString n =
     (case n of
        NaN \<Rightarrow> ''NaN''
      | Fin q \<Rightarrow>
          (let a = \<bar>q\<bar>;
               ip = nat \<lfloor>a\<rfloor>;
               fr = a - of_nat ip
           in (if q < 0 then ''-'' else []) @ nat_digits (Suc ip) ip @
              (if fr = 0 then [] else CHR ''.'' # frac_digits 17 fr)))"

definition decimal_builtins :: builtins where
  "decimal_builtins =
     \<lparr>parseFloat = decimal_parseFloat,
      StringToNumber = decimal_StringToNumber,
      NumberToString = decimal_NumberToString\<rparr>"

section \<open>Concrete rows\<close>

definition mk_row :: "bool \<Rightarrow> rat \<Rightarrow> string \<Rightarrow> rat \<Rightarrow> bool \<Rightarrow> jsval \<Rightarrow> raw_row" where
  "mk_row daytime solar grid demand heavy bp =
     \<lparr>timestamp = JStr ''2024-01-01 00:00:00'',
      is_daytime = JBool daytime,
      solar_input_watts = JNum (Fin solar),
      grid_status = JStr grid,
      household_power_demand_watts = JNum (Fin demand),
      heavy_appliance_active = JBool heavy,
      ambient_temperature_celsius = JNum (Fin 25),
      weather_condition = JStr ''Sunny'',
      battery_percent = bp\<rparr>"

text \<open>The example of the night outage: grid off, battery at 50, a heavy appliance on.\<close>

definition night_outage_row :: raw_row where
  "night_outage_row = mk_row False 0 ''power off'' 2000 True (JNum (Fin 50))"

text \<open>
  Daytime rows with the grid normal and solar above demand, whose battery level is the
  fraction 0.15 as a number, the same as text, and text that is no number.
\<close>

definition fraction_battery_row :: raw_row where
  "fraction_battery_row = mk_row True 3000 ''normal'' 2000 False (JNum (Fin (15 / 100)))"

definition fraction_text_row :: raw_row where
  "fraction_text_row = mk_row True 3000 ''normal'' 2000 False (JStr ''0.15'')"

definition malformed_battery_row :: raw_row where
  "malformed_battery_row = mk_row True 3000 ''normal'' 2000 False (JStr ''abc'')"

text \<open>A daytime outage with solar above demand and the battery full.\<close>

definition full_battery_outage_row :: raw_row where
  "full_battery_outage_row = mk_row True 3000 ''power off'' 2000 False (JNum (Fin 100))"

text \<open>A daytime row with the grid normal and solar below demand.\<close>

definition cloudy_row :: raw_row where
  "cloudy_row = mk_row True 500 ''normal'' 2000 False (JNum (Fin 80))"

text \<open>
  A session: the server starts, a workbook with the given rows is uploaded as
  \<open>data.xlsx\<close>, and rows are requested under the path the upload answered.
\<close>

definition sample_path :: string where
  "sample_path = ''uploads/data.xlsx''"

definition sample_upload :: "raw_row list \<Rightarrow> upload_file" where
  "sample_upload rows =
     \<lparr>file_name = ''data.xlsx'', file_content = Workbook (map Uploaded rows), mv_error = None\<rparr>"

definition loaded :: "raw_row list \<Rightarrow> server" where
  "loaded rows = snd (post_uploads (Some (sample_upload rows)) (initial_server Map.empty))"

text \<open>
  A daytime row with the grid normal whose solar cell is empty, and one whose battery
  level is the empty string.
\<close>

definition missing_solar_row :: raw_row where
  "missing_solar_row =
     (mk_row True 0 ''normal'' 2000 False (JNum (Fin 80)))\<lparr>solar_input_watts := JUndefined\<rparr>"

definition empty_battery_row :: raw_row where
  "empty_battery_row = mk_row True 3000 ''normal'' 2000 False (JStr [])"

text \<open>A session whose counter already stands at 600 cycles.\<close>

definition worn_session :: server where
  "worn_session = (loaded [night_outage_row, cloudy_row])\<lparr>batteryDischargeCycles := 600\<rparr>"

section \<open>Properties\<close>

subsection \<open>The fields of the result\<close>

lemma parse_battery_percent_keeps: "snd (parse_battery_percent B bp) = bp"
  by (cases bp) (simp_all add: parse_battery_percent_def assign_const_def Let_def)

lemma processRowData_power_source:
  "power_source (fst (processRowData B r st)) = fst (power_source_rule B r)"
  by (simp add: processRowData_def Let_def case_prod_beta)

lemma processRowData_battery_action:
  "battery_action (fst (processRowData B r st)) =
     fst (battery_action_rule B r (fst (power_source_rule B r)) (battery_percent r) st)"
  using parse_battery_percent_keeps [of B "battery_percent r"]
  by (simp add: processRowData_def Let_def case_prod_beta)

lemma processRowData_alerts:
  "alerts (fst (processRowData B r st)) = join '', '' (row_alerts B r)"
  by (simp add: processRowData_def Let_def case_prod_beta)

lemma processRowData_state:
  "snd (processRowData B r st) =
     (snd (battery_action_rule B r (fst (power_source_rule B r)) (battery_percent r) st))
       \<lparr>lastBatteryAction :=
          Some (fst (battery_action_rule B r (fst (power_source_rule B r)) (battery_percent r) st))\<rparr>"
  using parse_battery_percent_keeps [of B "battery_percent r"]
  by (simp add: processRowData_def Let_def case_prod_beta)

lemma processRowData_discharge_cycles:
  "discharge_cycles (fst (processRowData B r st)) =
     batteryDischargeCycles (snd (processRowData B r st))"
  by (simp add: processRowData_def Let_def case_prod_beta)

lemma processRowData_battery_efficiency:
  "battery_efficiency (fst (processRowData B r st)) =
     Fin (100 - of_nat (discharge_cycles (fst (processRowData B r st))) * (2 / 10))"
  by (simp add: processRowData_def Let_def case_prod_beta)

lemma row_alerts_eq:
  "row_alerts B r = snd (power_source_rule B r) @ low_battery_alert B (battery_percent r)"
  by (simp add: row_alerts_def parse_battery_percent_keeps)

subsection \<open>Night rows with a degraded grid\<close>

lemma night_degraded_rule:
  assumes "\<not> ToBoolean (is_daytime r)"
    and "grid_status r = JStr ''power off'' \<or> grid_status r = JStr ''voltage fluctuation''"
  shows "power_source_rule B r =
     (Some Battery,
      ''Switched to battery.'' #
        (if ToBoolean (heavy_appliance_active r)
         then [''Warning: Heavy appliances on battery backup. Consider turning off.'']
         else []))"
  using assms by (auto simp: power_source_rule_def)

text \<open>
  Claim C1. On a row whose \<open>is_daytime\<close> is false (or any falsy value) and whose grid
  status is one of the two degraded values, which the code spells \<^verbatim>\<open>"power off"\<close> and
  \<^verbatim>\<open>"voltage fluctuation"\<close>, the power source is Battery and the battery action is
  Discharging; the alerts are the switched-to-battery alert, then the heavy-appliance
  warning exactly when a heavy appliance is active, then the low-battery alert if there
  is one; the cycle counter goes up by one exactly when the previous action was not
  Discharging, and the row records the new counter.
\<close>

theorem night_degraded_grid_runs_on_battery:
  assumes "\<not> ToBoolean (is_daytime r)"
    and "grid_status r = JStr ''power off'' \<or> grid_status r = JStr ''voltage fluctuation''"
  shows "power_source (fst (processRowData B r st)) = Some Battery \<and>
         battery_action (fst (processRowData B r st)) = Discharging \<and>
         row_alerts B r =
           ''Switched to battery.'' #
             (if ToBoolean (heavy_appliance_active r)
              then [''Warning: Heavy appliances on battery backup. Consider turning off.'']
              else []) @
             low_battery_alert B (battery_percent r) \<and>
         alerts (fst (processRowData B r st)) = join '', '' (row_alerts B r) \<and>
         batteryDischargeCycles (snd (processRowData B r st)) =
           (if lastBatteryAction st \<noteq> Some Discharging
            then batteryDischargeCycles st + 1
            else batteryDischargeCycles st) \<and>
         discharge_cycles (fst (processRowData B r st)) =
           batteryDischargeCycles (snd (processRowData B r st))"
  using night_degraded_rule [OF assms, of B]
  by (simp add: processRowData_power_source processRowData_battery_action
      processRowData_alerts processRowData_state processRowData_discharge_cycles
      row_alerts_eq battery_action_rule_def rule_a_def)

text \<open>
  The example row of the specification, processed first after the server starts: both
  alerts, and the counter incremented since no action precedes.
\<close>

theorem night_degraded_grid_runs_on_battery_witness:
  "\<not> ToBoolean (is_daytime night_outage_row) \<and>
   (grid_status night_outage_row = JStr ''power off'' \<or>
    grid_status night_outage_row = JStr ''voltage fluctuation'') \<and>
   power_source (fst (processRowData decimal_builtins night_outage_row (initial_server Map.empty))) =
     Some Battery \<and>
   battery_action (fst (processRowData decimal_builtins night_outage_row (initial_server Map.empty))) =
     Discharging \<and>
   alerts (fst (processRowData decimal_builtins night_outage_row (initial_server Map.empty))) =
     ''Switched to battery., Warning: Heavy appliances on battery backup. Consider turning off.'' \<and>
   discharge_cycles (fst (processRowData decimal_builtins night_outage_row (initial_server Map.empty))) = 1"
  using night_degraded_grid_runs_on_battery
    [of night_outage_row decimal_builtins "initial_server Map.empty"]
  by (simp add: night_outage_row_def mk_row_def initial_server_def low_battery_alert_def
      js_less_def)

subsection \<open>Rule (d) of the battery action\<close>

lemma fst_power_source_rule_cases:
  "fst (power_source_rule B r) =
     (if ToBoolean (is_daytime r) then
        (if grid_status r = JStr ''normal'' then
           (if js_greater_eq B (solar_input_watts r) (household_power_demand_watts r)
            then Some Solar else Some Solar_Grid)
         else if grid_status r = JStr ''power off'' \<or> grid_status r = JStr ''voltage fluctuation'' then
           (if js_greater_eq B (solar_input_watts r) (household_power_demand_watts r)
            then Some Solar else Some Solar_Battery)
         else None)
      else
        (if grid_status r = JStr ''normal'' then Some Grid
         else if grid_status r = JStr ''power off'' \<or> grid_status r = JStr ''voltage fluctuation''
         then Some Battery
         else None))"
  by (simp add: power_source_rule_def)

text \<open>
  Claim C4 says that rule (d) is dead: that whenever its condition holds, one of the
  rules (a) to (c) has matched before. On a daytime outage with solar above demand and
  the battery full, the power source is Solar, so (a) does not match; (b) fails on
  \<^verbatim>\<open>battery_percent < 100\<close>, (c) on the grid status; and (d) holds.
\<close>

theorem rule_d_dead_counterexample:
  "\<not> (rule_d decimal_builtins full_battery_outage_row (battery_percent full_battery_outage_row) \<longrightarrow>
        rule_a (fst (power_source_rule decimal_builtins full_battery_outage_row)) \<or>
        rule_b decimal_builtins full_battery_outage_row (battery_percent full_battery_outage_row) \<or>
        rule_c decimal_builtins full_battery_outage_row (battery_percent full_battery_outage_row))"
  by code_simp

text \<open>
  Claim C4, amended. Rule (d) is reached exactly on the daytime rows with a degraded
  grid whose solar input is at least the demand (the power source is then Solar) and
  whose battery is above 28, when rule (b) does not apply: solar is not above demand, or
  the battery is not below 100. On every other row where the condition of (d) holds, one
  of (a) to (c) has matched.
\<close>

theorem rule_d_reached_iff:
  "(\<not> rule_a (fst (power_source_rule B r)) \<and>
    \<not> rule_b B r (battery_percent r) \<and>
    \<not> rule_c B r (battery_percent r) \<and>
    rule_d B r (battery_percent r)) =
   (ToBoolean (is_daytime r) \<and>
    (grid_status r = JStr ''power off'' \<or> grid_status r = JStr ''voltage fluctuation'') \<and>
    js_greater_eq B (solar_input_watts r) (household_power_demand_watts r) \<and>
    js_greater B (battery_percent r) (JNum (Fin 28)) \<and>
    \<not> (js_greater B (solar_input_watts r) (household_power_demand_watts r) \<and>
       js_less B (battery_percent r) (JNum (Fin 100))))"
  by (auto simp: fst_power_source_rule_cases rule_a_def rule_b_def rule_c_def rule_d_def)


theorem rule_d_reached_iff_witness:
  "\<not> rule_a (fst (power_source_rule decimal_builtins full_battery_outage_row)) \<and>
   \<not> rule_b decimal_builtins full_battery_outage_row (battery_percent full_battery_outage_row) \<and>
   \<not> rule_c decimal_builtins full_battery_outage_row (battery_percent full_battery_outage_row) \<and>
   rule_d decimal_builtins full_battery_outage_row (battery_percent full_battery_outage_row) \<and>
   ToBoolean (is_daytime full_battery_outage_row) \<and>
   js_greater_eq decimal_builtins (solar_input_watts full_battery_outage_row)
     (household_power_demand_watts full_battery_outage_row) \<and>
   js_greater decimal_builtins (battery_percent full_battery_outage_row) (JNum (Fin 28)) \<and>
   \<not> js_less decimal_builtins (battery_percent full_battery_outage_row) (JNum (Fin 100))"
  using rule_d_reached_iff [of decimal_builtins full_battery_outage_row]
  by (simp add: full_battery_outage_row_def mk_row_def js_greater_def js_greater_eq_def
      js_less_def)

subsection \<open>The battery level\<close>

text \<open>
  Claim C2 says that a battery level below 1 is multiplied by 100 before anything uses
  it, so that 0.15 is reported as 15. The code does not: a number is copied into
  \<^verbatim>\<open>parsedBatteryPercent\<close> as it is; for a string the product is computed, but the
  assignment back to \<^verbatim>\<open>battery_percent\<close> fails on the constant binding and the error
  is swallowed; and \<^verbatim>\<open>parsedBatteryPercent\<close> is never read afterwards. At 0.15, as a
  number or as text, the alert reports 0.15 and the backup time is computed from 0.15
  percent of the capacity.
\<close>

theorem fraction_battery_percent_not_scaled:
  "parse_battery_percent decimal_builtins (JNum (Fin (15 / 100))) =
     (Some (Fin (15 / 100)), JNum (Fin (15 / 100))) \<and>
   alerts (fst (processRowData decimal_builtins fraction_battery_row (initial_server Map.empty))) =
     ''Battery Low: 0.15%'' \<and>
   estimated_battery_backup_time
     (fst (processRowData decimal_builtins fraction_battery_row (initial_server Map.empty))) =
     Fin (3 / 400) \<and>
   parse_battery_percent decimal_builtins (JStr ''0.15'') = (Some (Fin 15), JStr ''0.15'') \<and>
   alerts (fst (processRowData decimal_builtins fraction_text_row (initial_server Map.empty))) =
     ''Battery Low: 0.15%''"
  by code_simp

text \<open>
  Claim C10 is about a \<open>battery_percent\<close> that is a string which does not parse to
  a number, and the parse of the code is \<^verbatim>\<open>parseFloat\<close> (line 120). The
  comparisons of lines 133 to 164 do not use the parsed value: they convert the string
  themselves, and the two conversions differ. The empty string parses to \<^verbatim>\<open>NaN\<close>
  and is compared as 0: the row gets a low-battery alert, and its battery charges.
\<close>

theorem unparsed_battery_percent_counterexample:
  "battery_percent empty_battery_row = JStr [] \<and>
   parseFloat decimal_builtins [] = NaN \<and>
   StringToNumber decimal_builtins [] = Fin 0 \<and>
   alerts (fst (processRowData decimal_builtins empty_battery_row (initial_server Map.empty))) =
     ''Battery Low: %'' \<and>
   battery_action (fst (processRowData decimal_builtins empty_battery_row (initial_server Map.empty))) =
     Charging"
  by code_simp

text \<open>
  Claim C10, amended. When \<open>battery_percent\<close> is a string that the comparisons
  convert to \<^verbatim>\<open>NaN\<close>, whatever \<^verbatim>\<open>parseFloat\<close> makes of it, the row gets no
  low-battery alert, so its alerts are those of the power source; the battery action is
  never Charging: it is Discharging exactly when the power source is Battery or
  Solar+Battery, and Idle otherwise.
\<close>

theorem unparsed_battery_percent_never_charges:
  assumes "battery_percent r = JStr s" and "StringToNumber B s = NaN"
  shows "low_battery_alert B (battery_percent r) = [] \<and>
         alerts (fst (processRowData B r st)) = join '', '' (snd (power_source_rule B r)) \<and>
         battery_action (fst (processRowData B r st)) \<noteq> Charging \<and>
         battery_action (fst (processRowData B r st)) =
           (if power_source (fst (processRowData B r st)) = Some Battery \<or>
               power_source (fst (processRowData B r st)) = Some Solar_Battery
            then Discharging else Idle)"
  using assms
  by (simp add: processRowData_power_source processRowData_battery_action
      processRowData_alerts row_alerts_eq low_battery_alert_def battery_action_rule_def
      rule_a_def rule_b_def rule_c_def rule_d_def js_less_def js_greater_def)

theorem unparsed_battery_percent_never_charges_witness:
  "battery_percent malformed_battery_row = JStr ''abc'' \<and>
   StringToNumber decimal_builtins ''abc'' = NaN \<and>
   alerts (fst (processRowData decimal_builtins malformed_battery_row (initial_server Map.empty))) = [] \<and>
   battery_action (fst (processRowData decimal_builtins malformed_battery_row (initial_server Map.empty))) =
     Idle"
proof -
  have h1: "battery_percent malformed_battery_row = JStr ''abc''"
    by (simp add: malformed_battery_row_def mk_row_def)
  have h2: "StringToNumber decimal_builtins ''abc'' = NaN"
    by code_simp
  have h3: "power_source (fst (processRowData decimal_builtins malformed_battery_row
      (initial_server Map.empty))) = Some Solar"
    by code_simp
  have h4: "snd (power_source_rule decimal_builtins malformed_battery_row) = []"
    by code_simp
  show ?thesis
    using h1 h2 h3 h4
      unparsed_battery_percent_never_charges [OF h1 h2, of "initial_server Map.empty"]
    by simp
qed

subsection \<open>Energy contributions\<close>

text \<open>
  Claim C6 says that on every row with a classified power source the three
  contributions add up to the total consumption. A daytime row with the grid normal and
  an empty solar cell is classified Solar+Grid, since \<^verbatim>\<open>undefined >= 2000\<close> is false;
  its solar contribution and the remainder are \<^verbatim>\<open>NaN\<close>, and so is the sum, while the
  total is a number.
\<close>

theorem contributions_sum_counterexample:
  "power_source (fst (processRowData decimal_builtins missing_solar_row (initial_server Map.empty))) =
     Some Solar_Grid \<and>
   total_consumption_kwh
     (fst (processRowData decimal_builtins missing_solar_row (initial_server Map.empty))) =
     Fin (1 / 90) \<and>
   num_add
     (num_add
        (solar_contribution
           (fst (processRowData decimal_builtins missing_solar_row (initial_server Map.empty))))
        (grid_contribution
           (fst (processRowData decimal_builtins missing_solar_row (initial_server Map.empty)))))
     (battery_contribution
        (fst (processRowData decimal_builtins missing_solar_row (initial_server Map.empty)))) =
     NaN \<and>
   num_add
     (num_add
        (solar_contribution
           (fst (processRowData decimal_builtins missing_solar_row (initial_server Map.empty))))
        (grid_contribution
           (fst (processRowData decimal_builtins missing_solar_row (initial_server Map.empty)))))
     (battery_contribution
        (fst (processRowData decimal_builtins missing_solar_row (initial_server Map.empty)))) \<noteq>
   total_consumption_kwh
     (fst (processRowData decimal_builtins missing_solar_row (initial_server Map.empty)))"
  by code_simp

text \<open>
  Claim C6, amended. On every classified row whose demand is a number, the total
  consumption is the demand over the slice of 20 seconds, in kWh. When the power source
  is Solar, Grid or Battery, the three contributions add up to it. When it is
  Solar+Grid or Solar+Battery, the solar
  contribution is the solar input over the slice, the remainder (of the grid, or of the
  battery) is the total minus the solar contribution, as the code subtracts them, and
  the third contribution is 0; that their sum gives the total again is not stated, the
  subtraction and the addition being rounded in the code.
\<close>

theorem contributions_of_classified_row:
  assumes "power_source (fst (processRowData B r st)) \<noteq> None"
    and "ToNumber B (household_power_demand_watts r) = Fin d"
  shows "total_consumption_kwh (fst (processRowData B r st)) = Fin (d * (20 / 3600) / 1000) \<and>
         (if power_source (fst (processRowData B r st)) = Some Solar_Grid then
            solar_contribution (fst (processRowData B r st)) =
              num_div (num_mul (ToNumber B (solar_input_watts r)) hourFraction) (Fin 1000) \<and>
            grid_contribution (fst (processRowData B r st)) =
              num_sub (total_consumption_kwh (fst (processRowData B r st)))
                (solar_contribution (fst (processRowData B r st))) \<and>
            battery_contribution (fst (processRowData B r st)) = Fin 0
          else if power_source (fst (processRowData B r st)) = Some Solar_Battery then
            solar_contribution (fst (processRowData B r st)) =
              num_div (num_mul (ToNumber B (solar_input_watts r)) hourFraction) (Fin 1000) \<and>
            grid_contribution (fst (processRowData B r st)) = Fin 0 \<and>
            battery_contribution (fst (processRowData B r st)) =
              num_sub (total_consumption_kwh (fst (processRowData B r st)))
                (solar_contribution (fst (processRowData B r st)))
          else
            num_add
              (num_add (solar_contribution (fst (processRowData B r st)))
                 (grid_contribution (fst (processRowData B r st))))
              (battery_contribution (fst (processRowData B r st))) =
            total_consumption_kwh (fst (processRowData B r st)))"
proof (cases "fst (power_source_rule B r)")
  case None
  with assms(1) show ?thesis by (simp add: processRowData_def Let_def case_prod_beta)
next
  case (Some ps)
  then show ?thesis
    using assms(2)
    by (cases ps)
      (simp_all add: processRowData_def Let_def case_prod_beta contributions_def hourFraction_def)
qed

text \<open>A Solar+Grid row, and the night outage, whose power source is Battery.\<close>

theorem contributions_of_classified_row_witness:
  "power_source (fst (processRowData decimal_builtins cloudy_row (initial_server Map.empty))) =
     Some Solar_Grid \<and>
   ToNumber decimal_builtins (household_power_demand_watts cloudy_row) = Fin 2000 \<and>
   total_consumption_kwh (fst (processRowData decimal_builtins cloudy_row (initial_server Map.empty))) =
     Fin (2000 * (20 / 3600) / 1000) \<and>
   grid_contribution (fst (processRowData decimal_builtins cloudy_row (initial_server Map.empty))) =
     num_sub
       (total_consumption_kwh
          (fst (processRowData decimal_builtins cloudy_row (initial_server Map.empty))))
       (solar_contribution
          (fst (processRowData decimal_builtins cloudy_row (initial_server Map.empty)))) \<and>
   battery_contribution (fst (processRowData decimal_builtins cloudy_row (initial_server Map.empty))) =
     Fin 0 \<and>
   power_source (fst (processRowData decimal_builtins night_outage_row (initial_server Map.empty))) =
     Some Battery \<and>
   ToNumber decimal_builtins (household_power_demand_watts night_outage_row) = Fin 2000 \<and>
   num_add
     (num_add
        (solar_contribution
           (fst (processRowData decimal_builtins night_outage_row (initial_server Map.empty))))
        (grid_contribution
           (fst (processRowData decimal_builtins night_outage_row (initial_server Map.empty)))))
     (battery_contribution
        (fst (processRowData decimal_builtins night_outage_row (initial_server Map.empty)))) =
   total_consumption_kwh
     (fst (processRowData decimal_builtins night_outage_row (initial_server Map.empty)))"
proof -
  have c1: "power_source (fst (processRowData decimal_builtins cloudy_row
      (initial_server Map.empty))) = Some Solar_Grid"
    by code_simp
  have c2: "ToNumber decimal_builtins (household_power_demand_watts cloudy_row) = Fin 2000"
    by (simp add: cloudy_row_def mk_row_def)
  have n1: "power_source (fst (processRowData decimal_builtins night_outage_row
      (initial_server Map.empty))) = Some Battery"
    by code_simp
  have n2: "ToNumber decimal_builtins (household_power_demand_watts night_outage_row) = Fin 2000"
    by (simp add: night_outage_row_def mk_row_def)
  have c0: "power_source (fst (processRowData decimal_builtins cloudy_row
      (initial_server Map.empty))) \<noteq> None"
    using c1 by simp
  have n0: "power_source (fst (processRowData decimal_builtins night_outage_row
      (initial_server Map.empty))) \<noteq> None"
    using n1 by simp
  show ?thesis
    using c1 c2 n1 n2 contributions_of_classified_row [OF c0 c2]
      contributions_of_classified_row [OF n0 n2]
    by simp
qed

subsection \<open>Requests for the next row\<close>

lemma battery_action_rule_frame:
  "currentRowIndex (snd (battery_action_rule B r ps bp st)) = currentRowIndex st \<and>
   files (snd (battery_action_rule B r ps bp st)) = files st \<and>
   lastBatteryAction (snd (battery_action_rule B r ps bp st)) = lastBatteryAction st"
  by (simp add: battery_action_rule_def)

lemma battery_action_rule_cycles:
  "batteryDischargeCycles (snd (battery_action_rule B r ps bp st)) =
     (if rule_a ps \<and> lastBatteryAction st \<noteq> Some Discharging
      then batteryDischargeCycles st + 1
      else batteryDischargeCycles st)"
  by (simp add: battery_action_rule_def)

lemma processRowData_frame:
  "currentRowIndex (snd (processRowData B r st)) = currentRowIndex st \<and>
   files (snd (processRowData B r st)) = files st"
  by (simp add: processRowData_state battery_action_rule_frame)

lemma processRowData_cycles:
  "batteryDischargeCycles (snd (processRowData B r st)) =
     (if rule_a (fst (power_source_rule B r)) \<and> lastBatteryAction st \<noteq> Some Discharging
      then batteryDischargeCycles st + 1
      else batteryDischargeCycles st)"
  by (simp add: processRowData_state battery_action_rule_cycles)

lemma appendProcessedData_frame:
  "currentRowIndex (appendProcessedData p pr st) = currentRowIndex st \<and>
   batteryDischargeCycles (appendProcessedData p pr st) = batteryDischargeCycles st \<and>
   lastBatteryAction (appendProcessedData p pr st) = lastBatteryAction st"
  by (simp add: appendProcessedData_def Let_def split: option.splits stored_file.splits)

lemma appendProcessedData_files:
  assumes "files st p = Some (Workbook data)"
  shows "\<exists>data'. files (appendProcessedData p pr st) p = Some (Workbook data') \<and>
           length data' = length data"
  using assms by (simp add: appendProcessedData_def Let_def)

lemma get_data_next_done:
  assumes "p \<noteq> []" and "files st p = Some (Workbook data)"
    and "length data \<le> currentRowIndex st"
  shows "get_data_next B (Some p) st = (Next_done, st)"
  using assms by (simp add: get_data_next_def file_not_found_def loadExcelData_def)

lemma get_data_next_row:
  assumes "p \<noteq> []" and "files st p = Some (Workbook data)"
    and "currentRowIndex st < length data"
  shows "fst (get_data_next B (Some p) st) =
           Next_data (fst (processRowData B (raw_of (data ! currentRowIndex st)) st))"
    and "currentRowIndex (snd (get_data_next B (Some p) st)) = currentRowIndex st + 1"
    and "batteryDischargeCycles (snd (get_data_next B (Some p) st)) =
           batteryDischargeCycles (snd (processRowData B (raw_of (data ! currentRowIndex st)) st))"
    and "lastBatteryAction (snd (get_data_next B (Some p) st)) =
           lastBatteryAction (snd (processRowData B (raw_of (data ! currentRowIndex st)) st))"
    and "\<exists>data'. files (snd (get_data_next B (Some p) st)) p = Some (Workbook data') \<and>
           length data' = length data"
proof -
  let ?r = "raw_of (data ! currentRowIndex st)"
  let ?st1 = "snd (processRowData B ?r st)"
  let ?pr = "fst (processRowData B ?r st)"
  have eq: "get_data_next B (Some p) st =
      (Next_data ?pr,
       (appendProcessedData p ?pr ?st1)
         \<lparr>currentRowIndex := currentRowIndex (appendProcessedData p ?pr ?st1) + 1\<rparr>)"
    using assms
    by (simp add: get_data_next_def file_not_found_def loadExcelData_def Let_def case_prod_beta)
  have f1: "files ?st1 p = Some (Workbook data)"
    using assms(2) by (simp add: processRowData_frame)
  show "fst (get_data_next B (Some p) st) = Next_data ?pr"
    by (simp add: eq)
  show "currentRowIndex (snd (get_data_next B (Some p) st)) = currentRowIndex st + 1"
    by (simp add: eq appendProcessedData_frame processRowData_frame)
  show "batteryDischargeCycles (snd (get_data_next B (Some p) st)) = batteryDischargeCycles ?st1"
    by (simp add: eq appendProcessedData_frame)
  show "lastBatteryAction (snd (get_data_next B (Some p) st)) = lastBatteryAction ?st1"
    by (simp add: eq appendProcessedData_frame)
  show "\<exists>data'. files (snd (get_data_next B (Some p) st)) p = Some (Workbook data') \<and>
           length data' = length data"
    using appendProcessedData_files [OF f1, of ?pr] by (simp add: eq)
qed

text \<open>Whatever the request, the three possible outcomes.\<close>

lemma get_data_next_cases:
  "(get_data_next B fp st = (Status 404 ''File not found'', st)) \<or>
   (get_data_next B fp st = (Next_done, st)) \<or>
   (\<exists>r. fst (get_data_next B fp st) = Next_data (fst (processRowData B r st)) \<and>
        batteryDischargeCycles (snd (get_data_next B fp st)) =
          batteryDischargeCycles (snd (processRowData B r st)))"
proof (cases "file_not_found fp st")
  case True
  then show ?thesis by (simp add: get_data_next_def)
next
  case nf: False
  show ?thesis
  proof (cases "length (loadExcelData st (the fp)) \<le> currentRowIndex st")
    case True
    with nf show ?thesis by (simp add: get_data_next_def Let_def)
  next
    case False
    with nf have "fst (get_data_next B fp st) =
        Next_data (fst (processRowData B (raw_of (loadExcelData st (the fp) ! currentRowIndex st)) st)) \<and>
        batteryDischargeCycles (snd (get_data_next B fp st)) =
          batteryDischargeCycles (snd (processRowData B (raw_of (loadExcelData st (the fp) ! currentRowIndex st)) st))"
      by (simp add: get_data_next_def Let_def case_prod_beta appendProcessedData_frame)
    then show ?thesis by blast
  qed
qed

lemma get_data_next_cycles_mono:
  "batteryDischargeCycles st \<le> batteryDischargeCycles (snd (get_data_next B fp st))"
  using get_data_next_cases [of B fp st] by (auto simp: processRowData_cycles)

lemma get_data_next_row_cycles:
  assumes "fst (get_data_next B fp st) = Next_data pr"
  shows "discharge_cycles pr = batteryDischargeCycles (snd (get_data_next B fp st)) \<and>
         battery_efficiency pr = Fin (100 - of_nat (discharge_cycles pr) * (2 / 10))"
  using get_data_next_cases [of B fp st] assms
  by (auto simp: processRowData_discharge_cycles processRowData_battery_efficiency)

lemma advance_n_Suc:
  "advance_n B (Suc k) p st =
     (fst (get_data_next B (Some p) st) # fst (advance_n B k p (snd (get_data_next B (Some p) st))),
      snd (advance_n B k p (snd (get_data_next B (Some p) st))))"
  by (simp add: case_prod_beta)

lemma advance_n_rows_bound:
  "pr \<in> set (rows_of (fst (advance_n B K p st))) \<Longrightarrow>
     batteryDischargeCycles st \<le> discharge_cycles pr \<and>
     battery_efficiency pr = Fin (100 - of_nat (discharge_cycles pr) * (2 / 10))"
proof (induction K arbitrary: st)
  case 0
  then show ?case by simp
next
  case (Suc K)
  let ?res = "fst (get_data_next B (Some p) st)"
  let ?st1 = "snd (get_data_next B (Some p) st)"
  have mono: "batteryDischargeCycles st \<le> batteryDischargeCycles ?st1"
    by (rule get_data_next_cycles_mono)
  from Suc.prems have mem: "pr \<in> set (rows_of (?res # fst (advance_n B K p ?st1)))"
    by (simp only: advance_n_Suc fst_conv)
  show ?case
  proof (cases ?res)
    case (Next_data q)
    with mem have "pr = q \<or> pr \<in> set (rows_of (fst (advance_n B K p ?st1)))" by simp
    then show ?thesis
    proof
      assume "pr = q"
      with get_data_next_row_cycles [OF Next_data] mono show ?thesis by simp
    next
      assume "pr \<in> set (rows_of (fst (advance_n B K p ?st1)))"
      from Suc.IH [OF this] mono show ?thesis by simp
    qed
  next
    case (Status c m)
    with mem have "pr \<in> set (rows_of (fst (advance_n B K p ?st1)))" by simp
    from Suc.IH [OF this] mono show ?thesis by simp
  next
    case (Upload_json a b)
    with mem have "pr \<in> set (rows_of (fst (advance_n B K p ?st1)))" by simp
    from Suc.IH [OF this] mono show ?thesis by simp
  next
    case Next_done
    with mem have "pr \<in> set (rows_of (fst (advance_n B K p ?st1)))" by simp
    from Suc.IH [OF this] mono show ?thesis by simp
  next
    case (Summary_json a b c)
    with mem have "pr \<in> set (rows_of (fst (advance_n B K p ?st1)))" by simp
    from Suc.IH [OF this] mono show ?thesis by simp
  qed
qed

lemma advance_n_rows_sorted:
  "sorted_wrt (\<lambda>a b. discharge_cycles a \<le> discharge_cycles b)
     (rows_of (fst (advance_n B K p st)))"
proof (induction K arbitrary: st)
  case 0
  then show ?case by simp
next
  case (Suc K)
  let ?res = "fst (get_data_next B (Some p) st)"
  let ?st1 = "snd (get_data_next B (Some p) st)"
  have rows: "rows_of (fst (advance_n B (Suc K) p st)) =
      rows_of (?res # fst (advance_n B K p ?st1))"
    by (simp only: advance_n_Suc fst_conv)
  show ?case
  proof (cases ?res)
    case (Next_data q)
    have "\<forall>b \<in> set (rows_of (fst (advance_n B K p ?st1))). discharge_cycles q \<le> discharge_cycles b"
      using advance_n_rows_bound [of _ B K p ?st1] get_data_next_row_cycles [OF Next_data]
      by simp
    with Suc.IH [of ?st1] Next_data rows show ?thesis by simp
  qed (use Suc.IH [of ?st1] rows in simp_all)
qed

subsection \<open>Battery efficiency\<close>

text \<open>
  Claim C5. The efficiency of a row is 100 minus 0.2 times the cycle counter as it is
  after the battery action of that row (the value the row records as
  \<open>discharge_cycles\<close>); nothing clamps it at zero. Over the rows produced by successive
  requests for the next row, it never increases.
\<close>

theorem battery_efficiency_formula_and_monotone:
  "discharge_cycles (fst (processRowData B r st)) =
     batteryDischargeCycles (snd (processRowData B r st)) \<and>
   battery_efficiency (fst (processRowData B r st)) =
     Fin (100 - (2 / 10) * of_nat (batteryDischargeCycles (snd (processRowData B r st)))) \<and>
   (\<forall>pr \<in> set (rows_of (fst (advance_n B K p s0))).
      battery_efficiency pr = Fin (100 - (2 / 10) * of_nat (discharge_cycles pr))) \<and>
   sorted_wrt (\<lambda>a b. num_le (battery_efficiency b) (battery_efficiency a))
     (rows_of (fst (advance_n B K p s0)))"
proof -
  have "sorted_wrt (\<lambda>a b. num_le (battery_efficiency b) (battery_efficiency a))
     (rows_of (fst (advance_n B K p s0)))"
    using advance_n_rows_sorted [of B K p s0]
  proof (rule sorted_wrt_mono_rel [rotated])
    fix a b
    assume "a \<in> set (rows_of (fst (advance_n B K p s0)))"
      and "b \<in> set (rows_of (fst (advance_n B K p s0)))"
      and "discharge_cycles a \<le> discharge_cycles b"
    then show "num_le (battery_efficiency b) (battery_efficiency a)"
      using advance_n_rows_bound [of a B K p s0] advance_n_rows_bound [of b B K p s0]
      by simp
  qed
  moreover have "\<forall>pr \<in> set (rows_of (fst (advance_n B K p s0))).
      battery_efficiency pr = Fin (100 - (2 / 10) * of_nat (discharge_cycles pr))"
    using advance_n_rows_bound [of _ B K p s0] by (simp add: mult.commute)
  ultimately show ?thesis
    using processRowData_battery_efficiency [of B r st]
    by (simp add: processRowData_discharge_cycles mult.commute)
qed

text \<open>
  Two rows processed in a session that has counted 600 cycles: the efficiency is negative.
\<close>

theorem battery_efficiency_formula_and_monotone_witness:
  "map battery_efficiency (rows_of (fst (advance_n decimal_builtins 2 sample_path worn_session))) =
     [Fin (- (101 / 5)), Fin (- (101 / 5))] \<and>
   map discharge_cycles (rows_of (fst (advance_n decimal_builtins 2 sample_path worn_session))) =
     [601, 601] \<and>
   sorted_wrt (\<lambda>a b. num_le (battery_efficiency b) (battery_efficiency a))
     (rows_of (fst (advance_n decimal_builtins 2 sample_path worn_session)))"
proof -
  have h: "map battery_efficiency
      (rows_of (fst (advance_n decimal_builtins 2 sample_path worn_session))) =
     [Fin (- (101 / 5)), Fin (- (101 / 5))]"
    by code_simp
  have c: "map discharge_cycles
      (rows_of (fst (advance_n decimal_builtins 2 sample_path worn_session))) = [601, 601]"
    by code_simp
  show ?thesis
    using h c battery_efficiency_formula_and_monotone
      [of decimal_builtins night_outage_row worn_session 2 sample_path worn_session]
    by simp
qed

subsection \<open>The cursor\<close>

lemma advance_n_exhausted:
  assumes "p \<noteq> []" and "files st p = Some (Workbook data)"
    and "length data \<le> currentRowIndex st"
  shows "advance_n B J p st = (replicate J Next_done, st)"
  using get_data_next_done [OF assms, of B] by (induction J) simp_all

lemma rows_of_replicate_done: "rows_of (replicate J Next_done) = []"
  by (induction J) simp_all

lemma advance_n_cursor:
  assumes "p \<noteq> []" and "files st p = Some (Workbook data)"
    and "currentRowIndex st \<le> length data"
  shows "currentRowIndex (snd (advance_n B K p st)) = min (currentRowIndex st + K) (length data) \<and>
         (\<exists>data'. files (snd (advance_n B K p st)) p = Some (Workbook data') \<and>
            length data' = length data) \<and>
         length (rows_of (fst (advance_n B K p st))) =
           min (currentRowIndex st + K) (length data) - currentRowIndex st"
  using assms
proof (induction K arbitrary: st data)
  case 0
  then show ?case by simp
next
  case (Suc K)
  let ?st1 = "snd (get_data_next B (Some p) st)"
  show ?case
  proof (cases "currentRowIndex st < length data")
    case False
    with Suc.prems have "length data \<le> currentRowIndex st" by simp
    from advance_n_exhausted [OF Suc.prems(1,2) this, of B "Suc K"] Suc.prems False
    show ?thesis by (simp only: fst_conv snd_conv rows_of_replicate_done) simp
  next
    case True
    note row = get_data_next_row [OF Suc.prems(1,2) True, of B]
    from row(5) obtain data1 where d1: "files ?st1 p = Some (Workbook data1)"
      and l1: "length data1 = length data" by blast
    have c1: "currentRowIndex ?st1 \<le> length data1"
      using row(2) True l1 by simp
    from Suc.IH [OF Suc.prems(1) d1 c1] row(1,2) l1 True
    show ?thesis
      by (simp only: advance_n_Suc fst_conv snd_conv) auto
  qed
qed

text \<open>
  Claim C7. From a state whose cursor is 0, with a workbook of \<open>L\<close> rows under the
  path, the cursor after \<open>K\<close> requests for the next row is \<open>min K L\<close>, as many
  rows have been answered, and the summary reports that cursor. Once \<open>K\<close> has reached \<open>L\<close>, a further request answers
  \<^verbatim>\<open>done\<close> and returns the state it was given, files included, and so does any
  number of further requests.
\<close>

theorem cursor_after_advances:
  assumes "p \<noteq> []" and "files st p = Some (Workbook data)" and "currentRowIndex st = 0"
  shows "currentRowIndex (snd (advance_n B K p st)) = min K (length data) \<and>
         length (rows_of (fst (advance_n B K p st))) = min K (length data) \<and>
         get_data_summary (Some p) (snd (advance_n B K p st)) =
           Summary_json (length data) (min K (length data))
             (batteryDischargeCycles (snd (advance_n B K p st))) \<and>
         (length data \<le> K \<longrightarrow>
            get_data_next B (Some p) (snd (advance_n B K p st)) =
              (Next_done, snd (advance_n B K p st)) \<and>
            advance_n B J p (snd (advance_n B K p st)) =
              (replicate J Next_done, snd (advance_n B K p st)))"
proof -
  have c0: "currentRowIndex st \<le> length data" using assms(3) by simp
  note cur = advance_n_cursor [OF assms(1,2) c0, of B K]
  from cur obtain data' where d': "files (snd (advance_n B K p st)) p = Some (Workbook data')"
    and l': "length data' = length data" by blast
  have "length data \<le> K \<Longrightarrow>
      get_data_next B (Some p) (snd (advance_n B K p st)) = (Next_done, snd (advance_n B K p st)) \<and>
      advance_n B J p (snd (advance_n B K p st)) = (replicate J Next_done, snd (advance_n B K p st))"
  proof -
    assume "length data \<le> K"
    with cur assms(3) l' have ex: "length data' \<le> currentRowIndex (snd (advance_n B K p st))"
      by simp
    show ?thesis
      using get_data_next_done [OF assms(1) d' ex, of B]
        advance_n_exhausted [OF assms(1) d' ex, of B J] by simp
  qed
  moreover have "get_data_summary (Some p) (snd (advance_n B K p st)) =
      Summary_json (length data) (min K (length data))
        (batteryDischargeCycles (snd (advance_n B K p st)))"
    using cur assms(1,3) d' l'
    by (simp add: get_data_summary_def file_not_found_def loadExcelData_def)
  ultimately show ?thesis using cur assms(3) by simp
qed

theorem cursor_after_advances_witness:
  "sample_path \<noteq> [] \<and>
   files (loaded [night_outage_row, cloudy_row]) sample_path =
     Some (Workbook [Uploaded night_outage_row, Uploaded cloudy_row]) \<and>
   currentRowIndex (loaded [night_outage_row, cloudy_row]) = 0 \<and>
   currentRowIndex (snd (advance_n decimal_builtins 3 sample_path (loaded [night_outage_row, cloudy_row]))) = 2 \<and>
   length (rows_of (fst (advance_n decimal_builtins 3 sample_path (loaded [night_outage_row, cloudy_row])))) = 2 \<and>
   get_data_next decimal_builtins (Some sample_path)
       (snd (advance_n decimal_builtins 3 sample_path (loaded [night_outage_row, cloudy_row]))) =
     (Next_done, snd (advance_n decimal_builtins 3 sample_path (loaded [night_outage_row, cloudy_row])))"
proof -
  have h1: "sample_path \<noteq> []" by (simp add: sample_path_def)
  have h2: "files (loaded [night_outage_row, cloudy_row]) sample_path =
     Some (Workbook [Uploaded night_outage_row, Uploaded cloudy_row])"
    by (simp add: loaded_def post_uploads_def sample_upload_def sample_path_def Let_def)
  have h3: "currentRowIndex (loaded [night_outage_row, cloudy_row]) = 0"
    by (simp add: loaded_def post_uploads_def sample_upload_def Let_def)
  show ?thesis
    using h1 h2 h3 cursor_after_advances [OF h1 h2 h3, of decimal_builtins 3 1] by simp
qed

subsection \<open>The cycle counter\<close>

text \<open>
  Claim C3 says that the counter goes up by one on every row whose action is
  Discharging while the previous action was not. The counter is only touched in the
  first branch of the chain (\<open>processRowData_cycles\<close>), so it never decreases and never
  jumps by more than one; but a discharge that starts through rule (d) is not counted.
  In a session of one row, a daytime outage with solar above demand and the battery
  full: no action precedes, the action is Discharging, and the counter stays at 0.
\<close>

theorem discharge_by_rule_d_not_counted:
  "lastBatteryAction (loaded [full_battery_outage_row]) = None \<and>
   batteryDischargeCycles (loaded [full_battery_outage_row]) = 0 \<and>
   map battery_action
     (rows_of (fst (advance_n decimal_builtins 1 sample_path (loaded [full_battery_outage_row])))) =
     [Discharging] \<and>
   map discharge_cycles
     (rows_of (fst (advance_n decimal_builtins 1 sample_path (loaded [full_battery_outage_row])))) =
     [0] \<and>
   batteryDischargeCycles
     (snd (advance_n decimal_builtins 1 sample_path (loaded [full_battery_outage_row]))) = 0"
  by code_simp

subsection \<open>Uploading a new dataset\<close>

text \<open>
  Claim C8 says that an upload resets the whole state. It resets the cursor and the
  counter, and leaves \<open>lastBatteryAction\<close> as it was, for every request and state. So
  after a session that ended on Discharging, the first row of the next dataset, a night
  outage, is Discharging with no cycle counted.
\<close>

theorem upload_keeps_lastBatteryAction:
  "lastBatteryAction (snd (post_uploads req st)) = lastBatteryAction st \<and>
   lastBatteryAction (snd (advance_n decimal_builtins 1 sample_path (loaded [night_outage_row]))) =
     Some Discharging \<and>
   currentRowIndex (snd (post_uploads (Some (sample_upload [night_outage_row]))
     (snd (advance_n decimal_builtins 1 sample_path (loaded [night_outage_row]))))) = 0 \<and>
   batteryDischargeCycles (snd (post_uploads (Some (sample_upload [night_outage_row]))
     (snd (advance_n decimal_builtins 1 sample_path (loaded [night_outage_row]))))) = 0 \<and>
   lastBatteryAction (snd (post_uploads (Some (sample_upload [night_outage_row]))
     (snd (advance_n decimal_builtins 1 sample_path (loaded [night_outage_row]))))) =
     Some Discharging \<and>
   map battery_action (rows_of (fst (advance_n decimal_builtins 1 sample_path
     (snd (post_uploads (Some (sample_upload [night_outage_row]))
       (snd (advance_n decimal_builtins 1 sample_path (loaded [night_outage_row])))))))) =
     [Discharging] \<and>
   map discharge_cycles (rows_of (fst (advance_n decimal_builtins 1 sample_path
     (snd (post_uploads (Some (sample_upload [night_outage_row]))
       (snd (advance_n decimal_builtins 1 sample_path (loaded [night_outage_row])))))))) =
     [0]"
proof -
  have "lastBatteryAction (snd (post_uploads req st)) = lastBatteryAction st"
    by (simp add: post_uploads_def Let_def split: option.splits)
  moreover have "lastBatteryAction (snd (advance_n decimal_builtins 1 sample_path (loaded [night_outage_row]))) =
     Some Discharging" by code_simp
  moreover have "currentRowIndex (snd (post_uploads (Some (sample_upload [night_outage_row]))
     (snd (advance_n decimal_builtins 1 sample_path (loaded [night_outage_row]))))) = 0" by code_simp
  moreover have "batteryDischargeCycles (snd (post_uploads (Some (sample_upload [night_outage_row]))
     (snd (advance_n decimal_builtins 1 sample_path (loaded [night_outage_row]))))) = 0" by code_simp
  moreover have "lastBatteryAction (snd (post_uploads (Some (sample_upload [night_outage_row]))
     (snd (advance_n decimal_builtins 1 sample_path (loaded [night_outage_row]))))) =
     Some Discharging" by code_simp
  moreover have "map battery_action (rows_of (fst (advance_n decimal_builtins 1 sample_path
     (snd (post_uploads (Some (sample_upload [night_outage_row]))
       (snd (advance_n decimal_builtins 1 sample_path (loaded [night_outage_row])))))))) =
     [Discharging]" by code_simp
  moreover have "map discharge_cycles (rows_of (fst (advance_n decimal_builtins 1 sample_path
     (snd (post_uploads (Some (sample_upload [night_outage_row]))
       (snd (advance_n decimal_builtins 1 sample_path (loaded [night_outage_row])))))))) =
     [0]" by code_simp
  ultimately show ?thesis by simp
qed

subsection \<open>Rows with malformed cells\<close>

text \<open>
  Claim C9 says that a row with a non-numeric string in a numeric field is answered
  with a validation error that names the field and the row. A row whose
  \<open>battery_percent\<close> is \<^verbatim>\<open>"abc"\<close> is answered as any other row: a data response,
  with no alert at all and the battery action Idle; its backup time is \<^verbatim>\<open>NaN\<close>,
  \<^verbatim>\<open>null\<close> in the answer. The test of line 121 is false on this row, so that neither
  line 123 nor the handler of line 125 runs.
\<close>

theorem malformed_row_not_reported_counterexample:
  "fst (get_data_next decimal_builtins (Some sample_path) (loaded [malformed_battery_row])) =
     Next_data (fst (processRowData decimal_builtins malformed_battery_row
       (loaded [malformed_battery_row]))) \<and>
   alerts (fst (processRowData decimal_builtins malformed_battery_row
     (loaded [malformed_battery_row]))) = [] \<and>
   estimated_battery_backup_time (fst (processRowData decimal_builtins malformed_battery_row
     (loaded [malformed_battery_row]))) = NaN \<and>
   json_number (estimated_battery_backup_time (fst (processRowData decimal_builtins
     malformed_battery_row (loaded [malformed_battery_row])))) = None \<and>
   battery_action (fst (processRowData decimal_builtins malformed_battery_row
     (loaded [malformed_battery_row]))) = Idle \<and>
   \<not> js_less decimal_builtins (JNum (parseFloat decimal_builtins ''abc'')) (JNum (Fin 1))"
proof -
  have "fst (get_data_next decimal_builtins (Some sample_path) (loaded [malformed_battery_row])) =
     Next_data (fst (processRowData decimal_builtins malformed_battery_row
       (loaded [malformed_battery_row])))"
    by (simp add: get_data_next_def file_not_found_def loadExcelData_def loaded_def
        post_uploads_def sample_upload_def sample_path_def Let_def case_prod_beta)
  moreover have "alerts (fst (processRowData decimal_builtins malformed_battery_row
     (loaded [malformed_battery_row]))) = []" by code_simp
  moreover have "estimated_battery_backup_time (fst (processRowData decimal_builtins
     malformed_battery_row (loaded [malformed_battery_row]))) = NaN" by code_simp
  moreover have "battery_action (fst (processRowData decimal_builtins malformed_battery_row
     (loaded [malformed_battery_row]))) = Idle" by code_simp
  moreover have "\<not> js_less decimal_builtins (JNum (parseFloat decimal_builtins ''abc''))
     (JNum (Fin 1))" by code_simp
  ultimately show ?thesis by (simp add: json_number_def)
qed

lemma processRowData_ignores_battery_percent:
  "power_source (fst (processRowData B (r\<lparr>battery_percent := v\<rparr>) st)) =
     power_source (fst (processRowData B r st)) \<and>
   discharge_cycles (fst (processRowData B (r\<lparr>battery_percent := v\<rparr>) st)) =
     discharge_cycles (fst (processRowData B r st)) \<and>
   battery_efficiency (fst (processRowData B (r\<lparr>battery_percent := v\<rparr>) st)) =
     battery_efficiency (fst (processRowData B r st)) \<and>
   total_consumption_kwh (fst (processRowData B (r\<lparr>battery_percent := v\<rparr>) st)) =
     total_consumption_kwh (fst (processRowData B r st)) \<and>
   solar_contribution (fst (processRowData B (r\<lparr>battery_percent := v\<rparr>) st)) =
     solar_contribution (fst (processRowData B r st)) \<and>
   grid_contribution (fst (processRowData B (r\<lparr>battery_percent := v\<rparr>) st)) =
     grid_contribution (fst (processRowData B r st)) \<and>
   battery_contribution (fst (processRowData B (r\<lparr>battery_percent := v\<rparr>) st)) =
     battery_contribution (fst (processRowData B r st))"
proof -
  have ps: "power_source_rule B (r\<lparr>battery_percent := v\<rparr>) = power_source_rule B r"
    by (simp add: power_source_rule_def)
  have cyc: "discharge_cycles (fst (processRowData B (r\<lparr>battery_percent := v\<rparr>) st)) =
     discharge_cycles (fst (processRowData B r st))"
    by (simp add: processRowData_discharge_cycles processRowData_cycles ps)
  show ?thesis
    using cyc
    by (simp add: processRowData_power_source ps processRowData_battery_efficiency)
      (simp add: processRowData_def Let_def case_prod_beta ps)
qed

lemma backup_time_unparsed:
  assumes "battery_percent r = JStr s" and "StringToNumber B s = NaN"
  shows "estimated_battery_backup_time (fst (processRowData B r st)) =
     (if js_greater B (JNum (num_div (ToNumber B (household_power_demand_watts r)) (Fin 1000)))
           (JNum (Fin 0))
      then NaN else Fin 0)"
  using assms parse_battery_percent_keeps [of B "battery_percent r"]
  by (simp add: processRowData_def Let_def case_prod_beta backup_time_def)

text \<open>
  Claim C9, amended. Whatever the cells of the next row hold, the request answers the
  processed row as a data response and moves the cursor on: classification completes
  and the session goes on. No validation error is part of the answer: when
  \<open>battery_percent\<close> is a string that the comparisons convert to \<^verbatim>\<open>NaN\<close>, the
  alerts of the row are those of the power source alone. The backup time, the one
  number computed from \<open>battery_percent\<close>, is then \<^verbatim>\<open>NaN\<close> when the demand is
  positive, \<^verbatim>\<open>null\<close> in the answer (and 0 otherwise); the power source, the counter,
  the efficiency, the total and the three contributions are what they are for any
  other value of \<open>battery_percent\<close>.
\<close>

theorem malformed_battery_percent_row_answered:
  assumes "p \<noteq> []" and "files st p = Some (Workbook data)"
    and "currentRowIndex st < length data"
    and "r = raw_of (data ! currentRowIndex st)"
  shows "fst (get_data_next B (Some p) st) = Next_data (fst (processRowData B r st)) \<and>
         currentRowIndex (snd (get_data_next B (Some p) st)) = currentRowIndex st + 1 \<and>
         (\<forall>s. battery_percent r = JStr s \<and> StringToNumber B s = NaN \<longrightarrow>
            alerts (fst (processRowData B r st)) = join '', '' (snd (power_source_rule B r)) \<and>
            estimated_battery_backup_time (fst (processRowData B r st)) =
              (if js_greater B
                    (JNum (num_div (ToNumber B (household_power_demand_watts r)) (Fin 1000)))
                    (JNum (Fin 0))
               then NaN else Fin 0) \<and>
            json_number (estimated_battery_backup_time (fst (processRowData B r st))) =
              (if js_greater B
                    (JNum (num_div (ToNumber B (household_power_demand_watts r)) (Fin 1000)))
                    (JNum (Fin 0))
               then None else Some 0) \<and>
            (\<forall>v. power_source (fst (processRowData B (r\<lparr>battery_percent := v\<rparr>) st)) =
                   power_source (fst (processRowData B r st)) \<and>
                 discharge_cycles (fst (processRowData B (r\<lparr>battery_percent := v\<rparr>) st)) =
                   discharge_cycles (fst (processRowData B r st)) \<and>
                 battery_efficiency (fst (processRowData B (r\<lparr>battery_percent := v\<rparr>) st)) =
                   battery_efficiency (fst (processRowData B r st)) \<and>
                 total_consumption_kwh (fst (processRowData B (r\<lparr>battery_percent := v\<rparr>) st)) =
                   total_consumption_kwh (fst (processRowData B r st)) \<and>
                 solar_contribution (fst (processRowData B (r\<lparr>battery_percent := v\<rparr>) st)) =
                   solar_contribution (fst (processRowData B r st)) \<and>
                 grid_contribution (fst (processRowData B (r\<lparr>battery_percent := v\<rparr>) st)) =
                   grid_contribution (fst (processRowData B r st)) \<and>
                 battery_contribution (fst (processRowData B (r\<lparr>battery_percent := v\<rparr>) st)) =
                   battery_contribution (fst (processRowData B r st))))"
proof -
  have a: "fst (get_data_next B (Some p) st) = Next_data (fst (processRowData B r st))"
    using get_data_next_row(1) [OF assms(1,2,3), of B] assms(4) by simp
  have c: "currentRowIndex (snd (get_data_next B (Some p) st)) = currentRowIndex st + 1"
    by (rule get_data_next_row(2) [OF assms(1,2,3)])
  have b: "alerts (fst (processRowData B r st)) = join '', '' (snd (power_source_rule B r))"
    if "battery_percent r = JStr s" and "StringToNumber B s = NaN" for s
    using that
    by (simp add: processRowData_alerts row_alerts_eq low_battery_alert_def js_less_def)
  have j: "json_number (estimated_battery_backup_time (fst (processRowData B r st))) =
      (if js_greater B (JNum (num_div (ToNumber B (household_power_demand_watts r)) (Fin 1000)))
            (JNum (Fin 0))
       then None else Some 0)"
    if "battery_percent r = JStr s" and "StringToNumber B s = NaN" for s
    using backup_time_unparsed [OF that, of st] by (simp add: json_number_def)
  show ?thesis
    using a c b j backup_time_unparsed [where r = r and B = B and st = st]
      processRowData_ignores_battery_percent [where r = r and B = B and st = st]
    by blast
qed

theorem malformed_battery_percent_row_answered_witness:
  "sample_path \<noteq> [] \<and>
   files (loaded [malformed_battery_row]) sample_path =
     Some (Workbook [Uploaded malformed_battery_row]) \<and>
   currentRowIndex (loaded [malformed_battery_row]) < length [Uploaded malformed_battery_row] \<and>
   battery_percent malformed_battery_row = JStr ''abc'' \<and>
   StringToNumber decimal_builtins ''abc'' = NaN \<and>
   fst (get_data_next decimal_builtins (Some sample_path) (loaded [malformed_battery_row])) =
     Next_data (fst (processRowData decimal_builtins malformed_battery_row
       (loaded [malformed_battery_row]))) \<and>
   currentRowIndex
     (snd (get_data_next decimal_builtins (Some sample_path) (loaded [malformed_battery_row]))) = 1 \<and>
   estimated_battery_backup_time (fst (processRowData decimal_builtins malformed_battery_row
       (loaded [malformed_battery_row]))) = NaN \<and>
   json_number (estimated_battery_backup_time (fst (processRowData decimal_builtins
       malformed_battery_row (loaded [malformed_battery_row])))) = None"
proof -
  have h1: "sample_path \<noteq> []" by (simp add: sample_path_def)
  have h2: "files (loaded [malformed_battery_row]) sample_path =
     Some (Workbook [Uploaded malformed_battery_row])"
    by (simp add: loaded_def post_uploads_def sample_upload_def sample_path_def Let_def)
  have h3: "currentRowIndex (loaded [malformed_battery_row]) < length [Uploaded malformed_battery_row]"
    by (simp add: loaded_def post_uploads_def sample_upload_def Let_def)
  have h4: "malformed_battery_row =
      raw_of ([Uploaded malformed_battery_row] ! currentRowIndex (loaded [malformed_battery_row]))"
    by (simp add: loaded_def post_uploads_def sample_upload_def Let_def)
  have h5: "battery_percent malformed_battery_row = JStr ''abc''"
    by (simp add: malformed_battery_row_def mk_row_def)
  have h6: "StringToNumber decimal_builtins ''abc'' = NaN" by code_simp
  have h7: "js_greater decimal_builtins
      (JNum (num_div (ToNumber decimal_builtins (household_power_demand_watts malformed_battery_row))
         (Fin 1000))) (JNum (Fin 0))"
    by code_simp
  have h8: "currentRowIndex (loaded [malformed_battery_row]) = 0"
    by (simp add: loaded_def post_uploads_def sample_upload_def Let_def)
  show ?thesis
    using h1 h2 h3 h5 h6 h7 h8
      malformed_battery_percent_row_answered [OF h1 h2 h3 h4, of decimal_builtins]
    by (simp add: json_number_def)
qed

end
